theory Spec2Isabelle
  imports Main "HOL-Library.Word"
begin

section \<open>The handle-based wrapper around the geometry kernel (occt\_wrapper.cpp)\<close>

text \<open>
  The wrapper keeps a process-wide registry of kernel shapes under 64-bit handles and
  exposes load, export, bounds, boolean, fillet, mesh export and release through a C ABI.
  The geometry kernel itself (readers, writers, boolean algorithms, the mesher), the file
  system and the allocator are collaborators of the wrapper: they appear below as the fields
  of a record of functions, and every theorem holds for every such record.
\<close>

subsection \<open>Data\<close>

type_synonym handle = "64 word"
type_synonym byte = "8 word"

text \<open>
  A caller-owned character buffer passed by pointer: \<open>None\<close> is the null pointer,
  \<open>Some cs\<close> a buffer currently holding \<open>cs\<close>.
\<close>

type_synonym cbuf = "string option"

text \<open>
  The globals of the translation unit: \<open>shape_registry\<close> (a \<open>std::map\<close>) and the atomic
  counter \<open>next_handle\<close>; and the part of the C heap the wrapper allocates in: the live
  blocks by address (address 0 is the null pointer) and the highest address handed out.
\<close>

record 'shape state =
  shape_registry :: "handle \<rightharpoonup> 'shape"
  next_handle :: handle
  heap :: "nat \<rightharpoonup> byte list"
  brk :: nat

definition init_state :: "'shape state" where
  "init_state = \<lparr>shape_registry = Map.empty, next_handle = 1, heap = Map.empty, brk = 0\<rparr>"

text \<open>What a call into a collaborator does: it returns, or throws a \<open>std::exception\<close>
  with the given \<open>what()\<close>, or throws something else.\<close>

datatype 'a kout = Ok 'a | Throws string | ThrowsOther

text \<open>How a wrapper function ends: it returns a value, or an exception it does not catch
  leaves it, or it reads a vector out of bounds (undefined behaviour).\<close>

datatype 'r completion = Returns 'r | Escapes | OutOfBounds

subsection \<open>The error channel\<close>

text \<open>\<open>s.c_str()\<close> printed with \<open>%s\<close>: the characters before the first NUL.\<close>

definition c_str :: "string \<Rightarrow> string" where
  "c_str s = takeWhile (\<lambda>c. c \<noteq> CHR 0x00) s"

text \<open>
  \<open>snprintf(buf, n, "%s", s)\<close> for \<open>n > 0\<close>: at most \<open>n - 1\<close> characters of \<open>s\<close> and a
  terminating NUL are stored at the start of the buffer, whose later bytes keep their value.
  (The capacity passed is assumed not to exceed the buffer's real extent.)
\<close>

definition snprintf :: "string \<Rightarrow> nat \<Rightarrow> string \<Rightarrow> string" where
  "snprintf buf n s = (let w = take (n - 1) s @ [CHR 0x00] in w @ drop (length w) buf)"

definition write_error :: "string \<Rightarrow> cbuf \<Rightarrow> int \<Rightarrow> cbuf" where
  "write_error s out_error err_len =
     (case out_error of
        None \<Rightarrow> None
      | Some buf \<Rightarrow> if err_len > 0 then Some (snprintf buf (nat err_len) (c_str s)) else Some buf)"

subsection \<open>The handle allocator and the registry\<close>

text \<open>\<open>next_handle.fetch_add(1)\<close>: the old value is returned, the counter wraps at 64 bits.\<close>

definition fetch_add :: "'shape state \<Rightarrow> handle \<times> 'shape state" where
  "fetch_add s = (next_handle s, s\<lparr>next_handle := next_handle s + 1\<rparr>)"

text \<open>\<open>shape_registry[h] = shape\<close>\<close>

definition register :: "handle \<Rightarrow> 'shape \<Rightarrow> 'shape state \<Rightarrow> 'shape state" where
  "register h shape s = s\<lparr>shape_registry := (shape_registry s)(h \<mapsto> shape)\<rparr>"

definition occt_release_handle ::
  "handle \<Rightarrow> cbuf \<Rightarrow> int \<Rightarrow> 'shape state \<Rightarrow> int \<times> cbuf \<times> 'shape state" where
  "occt_release_handle h out_error err_len s =
     (case shape_registry s h of
        None \<Rightarrow> (0, write_error ''handle not found'' out_error err_len, s)
      | Some _ \<Rightarrow> (1, out_error, s\<lparr>shape_registry := (shape_registry s)(h := None)\<rparr>))"

subsection \<open>The collaborators\<close>

text \<open>Decimal printing of an unsigned and of a signed integer (\<open>std::to_string\<close>, and
  \<open>operator<<\<close> on an \<open>int\<close>).\<close>

definition digit_char :: "nat \<Rightarrow> char" where
  "digit_char d = ''0123456789'' ! d"

fun to_string :: "nat \<Rightarrow> string" where
  "to_string n = (if n < 10 then [digit_char n] else to_string (n div 10) @ [digit_char (n mod 10)])"

declare to_string.simps [simp del]

definition show_int :: "int \<Rightarrow> string" where
  "show_int i = (if i < 0 then CHR ''-'' # to_string (nat (- i)) else to_string (nat i))"

text \<open>What a reader whose \<open>ReadFile\<close> returned \<open>IFSelect_RetDone\<close> goes on to give:
  \<open>TransferRoots\<close> fails, or \<open>OneShape\<close> is null, or a shape.\<close>

datatype 'shape transfer = TransferFailed | NullShape | Shape 'shape

text \<open>What writing a shape to a temporary STEP file and reading the file back gives:
  the writer's \<open>Transfer\<close> fails, or its \<open>Write\<close>, or the file cannot be opened, or
  not be read, or the bytes of the file.\<close>

datatype export_result =
  WriterTransferFailed | WriteFailed | CannotOpen | CannotRead | FileBytes string

text \<open>A point (\<open>gp_Pnt\<close>) is three doubles; \<open>'d\<close> is the type of doubles, which the
  wrapper only compares with zero, passes on and prints.\<close>

type_synonym 'd pnt = "'d \<times> 'd \<times> 'd"

text \<open>The triangulation of a face (\<open>Poly_Triangulation\<close> with the face's location):
  its nodes, numbered from 1, its triangles as triples of node numbers, and the
  transformation of the location.\<close>

record 'd triangulation =
  nodes :: "'d pnt list"
  triangles :: "(int \<times> int \<times> int) list"
  loc :: "'d pnt \<Rightarrow> 'd pnt"

record ('shape, 'd) kernel =
  create_file :: "string \<Rightarrow> bool"
    \<comment> \<open>does \<open>std::ofstream ofs(tmp)\<close> open\<close>
  step_read :: "string \<Rightarrow> byte list \<Rightarrow> 'shape transfer option kout"
    \<comment> \<open>\<open>STEPControl_Reader\<close> on the file of this name and content;
       \<open>None\<close> when the status of \<open>ReadFile\<close> is not \<open>IFSelect_RetDone\<close>\<close>
  iges_read :: "string \<Rightarrow> byte list \<Rightarrow> 'shape transfer option kout"
    \<comment> \<open>\<open>IGESControl_Reader\<close> on the same file\<close>
  step_export :: "string \<Rightarrow> 'shape \<Rightarrow> export_result kout"
    \<comment> \<open>\<open>STEPControl_Writer\<close> to the file of this name, and the file read back\<close>
  mem_avail :: "nat \<Rightarrow> bool"
    \<comment> \<open>does \<open>malloc\<close> of this many bytes return a block\<close>
  bnd_box :: "'shape \<Rightarrow> ('d \<times> 'd \<times> 'd \<times> 'd \<times> 'd \<times> 'd) kout"
    \<comment> \<open>\<open>BRepBndLib::Add\<close> and \<open>Bnd_Box::Get\<close>\<close>
  fuse :: "'shape \<Rightarrow> 'shape \<Rightarrow> 'd \<Rightarrow> 'shape option kout"
    \<comment> \<open>\<open>BRepAlgoAPI_Fuse\<close> with this fuzzy value; \<open>None\<close> when not \<open>IsDone\<close>\<close>
  cut :: "'shape \<Rightarrow> 'shape \<Rightarrow> 'd \<Rightarrow> 'shape option kout"
  common :: "'shape \<Rightarrow> 'shape \<Rightarrow> 'd \<Rightarrow> 'shape option kout"
  positive :: "'d \<Rightarrow> bool"
    \<comment> \<open>\<open>deflection > 0.0\<close>\<close>
  tenth :: 'd
    \<comment> \<open>the double \<open>0.1\<close>\<close>
  incremental_mesh :: "'shape \<Rightarrow> 'd \<Rightarrow> int \<Rightarrow> 'd triangulation option list kout"
    \<comment> \<open>\<open>BRepMesh_IncrementalMesh\<close>, then the triangulation of each face in the order of
       \<open>TopExp_Explorer\<close>; \<open>None\<close> is a null triangulation\<close>
  show_double :: "'d \<Rightarrow> string"
    \<comment> \<open>\<open>operator<<\<close> on a double\<close>

subsection \<open>Loading\<close>

definition write_temp_file ::
  "('shape, 'd) kernel \<Rightarrow> string option \<Rightarrow> cbuf \<Rightarrow> int \<Rightarrow> 'shape state
     \<Rightarrow> string \<times> cbuf \<times> 'shape state" where
  "write_temp_file K filename out_error err_len s =
     (let (id, s1) = fetch_add s;
          tmp = ''/tmp/occt_upload_'' @ to_string (unat id) @ ''_''
                  @ (case filename of Some f \<Rightarrow> c_str f | None \<Rightarrow> ''upload'')
      in if \<not> create_file K tmp
         then ('''', write_error ''failed to create temp file'' out_error err_len, s1)
         else (tmp, out_error, s1))"

text \<open>The part of \<open>occt_load_from_memory\<close> that its STEP and its IGES branch share, once
  the reader's status is \<open>IFSelect_RetDone\<close>; \<open>fmt\<close> is \<open>''STEP''\<close> or \<open>''IGES''\<close>.\<close>

definition load_transfer ::
  "string \<Rightarrow> 'shape transfer \<Rightarrow> cbuf \<Rightarrow> int \<Rightarrow> 'shape state
     \<Rightarrow> handle \<times> cbuf \<times> 'shape state" where
  "load_transfer fmt r out_error err_len s =
     (case r of
        TransferFailed \<Rightarrow> (0, write_error (fmt @ '' transfer failed'') out_error err_len, s)
      | NullShape \<Rightarrow> (0, write_error (fmt @ '' produced empty shape'') out_error err_len, s)
      | Shape shape \<Rightarrow> (let (h, s1) = fetch_add s in (h, out_error, register h shape s1)))"

text \<open>The two \<open>catch\<close> clauses of \<open>occt_load_from_memory\<close>; \<open>w\<close> is \<open>Some\<close> of
  \<open>what()\<close> for a \<open>std::exception\<close>, \<open>None\<close> for anything else.\<close>

definition load_caught ::
  "string option \<Rightarrow> cbuf \<Rightarrow> int \<Rightarrow> 'shape state \<Rightarrow> handle \<times> cbuf \<times> 'shape state" where
  "load_caught w out_error err_len s =
     (case w of
        Some msg \<Rightarrow> (0, write_error (''exception: '' @ msg) out_error err_len, s)
      | None \<Rightarrow> (0, write_error ''unknown exception during load'' out_error err_len, s))"

definition occt_load_from_memory ::
  "('shape, 'd) kernel \<Rightarrow> string option \<Rightarrow> byte list option \<Rightarrow> nat \<Rightarrow> cbuf \<Rightarrow> int
     \<Rightarrow> 'shape state \<Rightarrow> handle \<times> cbuf \<times> 'shape state" where
  "occt_load_from_memory K filename data len out_error err_len s =
     (case data of
        None \<Rightarrow> (0, write_error ''empty input data'' out_error err_len, s)
      | Some bytes \<Rightarrow>
          if len = 0 then (0, write_error ''empty input data'' out_error err_len, s)
          else
            (let (tmp, e1, s1) = write_temp_file K filename out_error err_len s in
             if tmp = [] then (0, e1, s1)
             else
               (case step_read K tmp (take len bytes) of
                  Throws w \<Rightarrow> load_caught (Some w) e1 err_len s1
                | ThrowsOther \<Rightarrow> load_caught None e1 err_len s1
                | Ok (Some r) \<Rightarrow> load_transfer ''STEP'' r e1 err_len s1
                | Ok None \<Rightarrow>
                    (case iges_read K tmp (take len bytes) of
                       Throws w \<Rightarrow> load_caught (Some w) e1 err_len s1
                     | ThrowsOther \<Rightarrow> load_caught None e1 err_len s1
                     | Ok (Some r) \<Rightarrow> load_transfer ''IGES'' r e1 err_len s1
                     | Ok None \<Rightarrow>
                         (0, write_error ''failed to read as STEP or IGES'' e1 err_len, s1)))))"

subsection \<open>Boolean operations, fillet, bounds\<close>

text \<open>What each of the three branches of \<open>occt_boolean\<close> does with its algorithm's outcome,
  and the end of the function after them; \<open>name\<close> is \<open>''fuse''\<close>, \<open>''cut''\<close> or
  \<open>''common''\<close>.\<close>

definition boolean_branch ::
  "string \<Rightarrow> 'shape option kout \<Rightarrow> cbuf \<Rightarrow> int \<Rightarrow> 'shape state
     \<Rightarrow> handle completion \<times> cbuf \<times> 'shape state" where
  "boolean_branch name r out_error err_len s =
     (case r of
        Throws w \<Rightarrow> (Returns 0, write_error (''boolean exception: '' @ w) out_error err_len, s)
      | ThrowsOther \<Rightarrow> (Escapes, out_error, s)
      | Ok None \<Rightarrow> (Returns 0, write_error (name @ '' failed'') out_error err_len, s)
      | Ok (Some result) \<Rightarrow>
          (let (h, s1) = fetch_add s in (Returns h, out_error, register h result s1)))"

text \<open>\<open>op ? std::string(op) : std::string()\<close>\<close>

definition op_string :: "string option \<Rightarrow> string" where
  "op_string op = (case op of Some cs \<Rightarrow> c_str cs | None \<Rightarrow> '''')"

definition occt_boolean ::
  "('shape, 'd) kernel \<Rightarrow> handle \<Rightarrow> handle \<Rightarrow> string option \<Rightarrow> 'd \<Rightarrow> cbuf \<Rightarrow> int
     \<Rightarrow> 'shape state \<Rightarrow> handle completion \<times> cbuf \<times> 'shape state" where
  "occt_boolean K target tool op tolerance out_error err_len s =
     (case (shape_registry s target, shape_registry s tool) of
        (Some Ta, Some Ua) \<Rightarrow>
          (let str = op_string op in
           if str = ''union'' \<or> str = ''fuse''
           then boolean_branch ''fuse'' (fuse K Ta Ua tolerance) out_error err_len s
           else if str = ''cut''
           then boolean_branch ''cut'' (cut K Ta Ua tolerance) out_error err_len s
           else if str = ''common'' \<or> str = ''intersect''
           then boolean_branch ''common'' (common K Ta Ua tolerance) out_error err_len s
           else (Returns 0, write_error ''unknown boolean operation'' out_error err_len, s))
      | _ \<Rightarrow> (Returns 0, write_error ''target or tool handle not found'' out_error err_len, s))"

definition occt_fillet ::
  "handle \<Rightarrow> handle list option \<Rightarrow> nat \<Rightarrow> 'd \<Rightarrow> 'd \<Rightarrow> cbuf \<Rightarrow> int
     \<Rightarrow> 'shape state \<Rightarrow> handle \<times> cbuf \<times> 'shape state" where
  "occt_fillet target edge_ids edge_count radius tolerance out_error err_len s =
     (case shape_registry s target of
        None \<Rightarrow> (0, write_error ''target handle not found'' out_error err_len, s)
      | Some copyShape \<Rightarrow>
          (let (h, s1) = fetch_add s in (h, out_error, register h copyShape s1)))"

text \<open>The six out-parameters of \<open>occt_get_bounds\<close>: \<open>None\<close> is a null pointer,
  \<open>Some v\<close> a double currently holding \<open>v\<close>.\<close>

record 'd bounds_out =
  minx :: "'d option"
  miny :: "'d option"
  minz :: "'d option"
  maxx :: "'d option"
  maxy :: "'d option"
  maxz :: "'d option"

text \<open>\<open>if (p) *p = v\<close>\<close>

definition store :: "'a option \<Rightarrow> 'a \<Rightarrow> 'a option" where
  "store p v = (case p of None \<Rightarrow> None | Some _ \<Rightarrow> Some v)"

definition occt_get_bounds ::
  "('shape, 'd) kernel \<Rightarrow> handle \<Rightarrow> 'd bounds_out \<Rightarrow> cbuf \<Rightarrow> int \<Rightarrow> 'shape state
     \<Rightarrow> int completion \<times> 'd bounds_out \<times> cbuf \<times> 'shape state" where
  "occt_get_bounds K h out out_error err_len s =
     (case shape_registry s h of
        None \<Rightarrow> (Returns 0, out, write_error ''handle not found'' out_error err_len, s)
      | Some shape \<Rightarrow>
          (case bnd_box K shape of
             Throws w \<Rightarrow>
               (Returns 0, out, write_error (''bounds exception: '' @ w) out_error err_len, s)
           | ThrowsOther \<Rightarrow> (Escapes, out, out_error, s)
           | Ok (xMin, yMin, zMin, xMax, yMax, zMax) \<Rightarrow>
               (Returns 1,
                \<lparr>minx = store (minx out) xMin, miny = store (miny out) yMin,
                 minz = store (minz out) zMin, maxx = store (maxx out) xMax,
                 maxy = store (maxy out) yMax, maxz = store (maxz out) zMax\<rparr>,
                out_error, s)))"

definition occt_init :: "string option \<Rightarrow> cbuf \<Rightarrow> int \<Rightarrow> int \<times> cbuf" where
  "occt_init resource_path out_error err_len = (1, out_error)"

subsection \<open>Buffers\<close>

text \<open>
  \<open>malloc(n)\<close>: when the allocator has a block, a block of \<open>n\<close> bytes at an address
  above every address handed out so far (the bytes it holds are overwritten by the
  \<open>memcpy\<close> that follows in both callers); otherwise the null pointer 0.
\<close>

definition malloc :: "bool \<Rightarrow> nat \<Rightarrow> 'shape state \<Rightarrow> nat \<times> 'shape state" where
  "malloc avail n s =
     (if avail
      then (Suc (brk s),
            s\<lparr>heap := (heap s)(Suc (brk s) \<mapsto> replicate n 0), brk := Suc (brk s)\<rparr>)
      else (0, s))"

text \<open>\<open>memcpy(p, src, n)\<close> onto a whole block, with \<open>n = length src\<close>.\<close>

definition memcpy :: "nat \<Rightarrow> byte list \<Rightarrow> 'shape state \<Rightarrow> 'shape state" where
  "memcpy p src s = s\<lparr>heap := (heap s)(p \<mapsto> src)\<rparr>"

definition occt_free_buffer :: "nat \<Rightarrow> 'shape state \<Rightarrow> 'shape state" where
  "occt_free_buffer buf s = (if buf \<noteq> 0 then s\<lparr>heap := (heap s)(buf := None)\<rparr> else s)"

text \<open>
  The tail both buffer-producing functions share (lines 183 to 192 and 374 to 382):
  the length is stored, the block is requested and its address stored, and only then is
  the address tested. \<open>out_buf\<close> and \<open>out_len\<close> are the values of the caller's two
  variables, known to be non-null pointers at this point.
\<close>

definition hand_over ::
  "('shape, 'd) kernel \<Rightarrow> string \<Rightarrow> cbuf \<Rightarrow> int \<Rightarrow> 'shape state
     \<Rightarrow> int completion \<times> nat option \<times> nat option \<times> cbuf \<times> 'shape state" where
  "hand_over K bytes out_error err_len s =
     (let n = length bytes;
          (p, s1) = malloc (mem_avail K n) n s
      in if p = 0
         then (Returns 0, Some p, Some n, write_error ''malloc failed'' out_error err_len, s1)
         else (Returns 1, Some p, Some n, out_error, memcpy p (map of_char bytes) s1))"

subsection \<open>Export\<close>

text \<open>\<open>out_buf\<close> and \<open>out_len\<close>: \<open>None\<close> is a null pointer, \<open>Some v\<close> a pointer to a
  variable of the caller that holds \<open>v\<close>.\<close>

definition occt_export_step ::
  "('shape, 'd) kernel \<Rightarrow> handle \<Rightarrow> nat option \<Rightarrow> nat option \<Rightarrow> cbuf \<Rightarrow> int
     \<Rightarrow> 'shape state
     \<Rightarrow> int completion \<times> nat option \<times> nat option \<times> cbuf \<times> 'shape state" where
  "occt_export_step K h out_buf out_len out_error err_len s =
     (if out_buf = None \<or> out_len = None
      then (Returns 0, out_buf, out_len,
            write_error ''invalid output pointers'' out_error err_len, s)
      else
        (case shape_registry s h of
           None \<Rightarrow>
             (Returns 0, out_buf, out_len, write_error ''handle not found'' out_error err_len, s)
         | Some shape \<Rightarrow>
             (case step_export K (''/tmp/occt_export_'' @ to_string (unat h) @ ''.step'') shape of
                Throws w \<Rightarrow>
                  (Returns 0, out_buf, out_len,
                   write_error (''exception: '' @ w) out_error err_len, s)
              | ThrowsOther \<Rightarrow> (Escapes, out_buf, out_len, out_error, s)
              | Ok WriterTransferFailed \<Rightarrow>
                  (Returns 0, out_buf, out_len,
                   write_error ''STEP transfer in writer failed'' out_error err_len, s)
              | Ok WriteFailed \<Rightarrow>
                  (Returns 0, out_buf, out_len,
                   write_error ''STEP write failed'' out_error err_len, s)
              | Ok CannotOpen \<Rightarrow>
                  (Returns 0, out_buf, out_len,
                   write_error ''cannot open tmp step for reading'' out_error err_len, s)
              | Ok CannotRead \<Rightarrow>
                  (Returns 0, out_buf, out_len,
                   write_error ''failed to read tmp step file'' out_error err_len, s)
              | Ok (FileBytes buffer) \<Rightarrow> hand_over K buffer out_error err_len s)))"

subsection \<open>Mesh export\<close>

text \<open>\<open>(int)global_vertices.size()\<close>: a \<open>size_t\<close> narrowed to a 32-bit \<open>int\<close>.\<close>

definition to_int :: "nat \<Rightarrow> int" where
  "to_int n = sint (word_of_nat n :: 32 word)"

text \<open>\<open>v[i]\<close> on a \<open>std::vector<int>\<close> with an \<open>int\<close> index: \<open>None\<close> when the read is
  out of bounds.\<close>

definition at :: "int list \<Rightarrow> int \<Rightarrow> int option" where
  "at v i = (if 0 \<le> i \<and> nat i < length v then Some (v ! nat i) else None)"

text \<open>The loop over the nodes of one face (lines 343 to 349), from node number \<open>ni\<close> on;
  \<open>ps\<close> are the nodes not yet visited.\<close>

fun node_loop ::
  "('d pnt \<Rightarrow> 'd pnt) \<Rightarrow> 'd pnt list \<Rightarrow> nat \<Rightarrow> 'd pnt list \<times> int list
     \<Rightarrow> 'd pnt list \<times> int list" where
  "node_loop tr [] ni (global_vertices, localToGlobal) = (global_vertices, localToGlobal)"
| "node_loop tr (p # ps) ni (global_vertices, localToGlobal) =
     (let gv = global_vertices @ [tr p]
      in node_loop tr ps (Suc ni) (gv, localToGlobal[ni := to_int (length gv)]))"

text \<open>The loop over the triangles of one face (lines 351 to 360).\<close>

fun triangle_loop ::
  "int list \<Rightarrow> (int \<times> int \<times> int) list \<Rightarrow> (int \<times> int \<times> int) list
     \<Rightarrow> (int \<times> int \<times> int) list option" where
  "triangle_loop localToGlobal [] global_faces = Some global_faces"
| "triangle_loop localToGlobal ((n1, n2, n3) # ts) global_faces =
     (case (at localToGlobal n1, at localToGlobal n2, at localToGlobal n3) of
        (Some g1, Some g2, Some g3) \<Rightarrow>
          if g1 \<le> 0 \<or> g2 \<le> 0 \<or> g3 \<le> 0
          then triangle_loop localToGlobal ts global_faces
          else triangle_loop localToGlobal ts (global_faces @ [(g1, g2, g3)])
      | _ \<Rightarrow> None)"

text \<open>The loop over the faces (lines 327 to 361).\<close>

fun face_loop ::
  "'d triangulation option list \<Rightarrow> 'd pnt list \<times> (int \<times> int \<times> int) list
     \<Rightarrow> ('d pnt list \<times> (int \<times> int \<times> int) list) option" where
  "face_loop [] acc = Some acc"
| "face_loop (None # fs) acc = face_loop fs acc"
| "face_loop (Some tri # fs) (global_vertices, global_faces) =
     (let nNodes = length (nodes tri);
          (gv, localToGlobal) =
             node_loop (loc tri) (nodes tri) 1 (global_vertices, replicate (nNodes + 1) (- 1))
      in case triangle_loop localToGlobal (triangles tri) global_faces of
           None \<Rightarrow> None
         | Some gf \<Rightarrow> face_loop fs (gv, gf))"

definition vertex_line :: "('d \<Rightarrow> string) \<Rightarrow> 'd pnt \<Rightarrow> string" where
  "vertex_line sh p =
     (case p of (x, y, z) \<Rightarrow> ''v '' @ sh x @ '' '' @ sh y @ '' '' @ sh z @ [CHR 0x0A])"

definition face_line :: "int \<times> int \<times> int \<Rightarrow> string" where
  "face_line f =
     (case f of (a, b, c) \<Rightarrow>
        ''f '' @ show_int a @ '' '' @ show_int b @ '' '' @ show_int c @ [CHR 0x0A])"

text \<open>The text written to the string stream (lines 319 to 320 and 363 to 372).\<close>

definition obj_text ::
  "('d \<Rightarrow> string) \<Rightarrow> 'd pnt list \<Rightarrow> (int \<times> int \<times> int) list \<Rightarrow> string" where
  "obj_text sh global_vertices global_faces =
     ''# qutlas occt obj'' @ [CHR 0x0A]
       @ concat (map (vertex_line sh) global_vertices)
       @ concat (map face_line global_faces)"

text \<open>
  Line 312 of the source is not C++ (\<open>meshshape := shape\<close>); the comment under it says that
  the call of line 316 is the one meant, and that call is the one modelled.
\<close>

definition occt_generate_mesh_obj ::
  "('shape, 'd) kernel \<Rightarrow> handle \<Rightarrow> 'd \<Rightarrow> int \<Rightarrow> nat option \<Rightarrow> nat option \<Rightarrow> cbuf \<Rightarrow> int
     \<Rightarrow> 'shape state
     \<Rightarrow> int completion \<times> nat option \<times> nat option \<times> cbuf \<times> 'shape state" where
  "occt_generate_mesh_obj K h deflection linear_deflection out_buf out_len out_error err_len s =
     (if out_buf = None \<or> out_len = None
      then (Returns 0, out_buf, out_len,
            write_error ''invalid output pointers'' out_error err_len, s)
      else
        (case shape_registry s h of
           None \<Rightarrow>
             (Returns 0, out_buf, out_len, write_error ''handle not found'' out_error err_len, s)
         | Some shape \<Rightarrow>
             (let defl = (if positive K deflection then deflection else tenth K) in
              case incremental_mesh K shape defl linear_deflection of
                Throws w \<Rightarrow>
                  (Returns 0, out_buf, out_len,
                   write_error (''mesh exception: '' @ w) out_error err_len, s)
              | ThrowsOther \<Rightarrow> (Escapes, out_buf, out_len, out_error, s)
              | Ok faces \<Rightarrow>
                  (case face_loop faces ([], []) of
                     None \<Rightarrow> (OutOfBounds, out_buf, out_len, out_error, s)
                   | Some (global_vertices, global_faces) \<Rightarrow>
                       hand_over K (obj_text (show_double K) global_vertices global_faces)
                         out_error err_len s))))"

subsection \<open>The operation surface as one function\<close>

text \<open>
  A call of one of the fallible functions of \<open>occt_wrapper.h\<close>, with every argument but the
  error buffer and its capacity, which all of them take.
\<close>

datatype 'd call =
    Init "string option"
  | LoadFromMemory "string option" "byte list option" nat
  | ExportStep handle "nat option" "nat option"
  | GetBounds handle "'d bounds_out"
  | Boolean handle handle "string option" 'd
  | Fillet handle "handle list option" nat 'd 'd
  | GenerateMeshObj handle 'd int "nat option" "nat option"
  | ReleaseHandle handle

text \<open>What a call returns: a handle (\<open>uint64_t\<close>) or a status (\<open>int\<close>).\<close>

datatype rv = Handle handle | Status int

fun exec ::
  "('shape, 'd) kernel \<Rightarrow> 'd call \<Rightarrow> cbuf \<Rightarrow> int \<Rightarrow> 'shape state
     \<Rightarrow> rv completion \<times> cbuf \<times> 'shape state" where
  "exec K (Init p) e n s =
     (case occt_init p e n of (r, e') \<Rightarrow> (Returns (Status r), e', s))"
| "exec K (LoadFromMemory f d l) e n s =
     (case occt_load_from_memory K f d l e n s of (h, e', s') \<Rightarrow> (Returns (Handle h), e', s'))"
| "exec K (ExportStep h ob ol) e n s =
     (case occt_export_step K h ob ol e n s of
        (r, ob', ol', e', s') \<Rightarrow> (map_completion Status r, e', s'))"
| "exec K (GetBounds h out) e n s =
     (case occt_get_bounds K h out e n s of (r, out', e', s') \<Rightarrow> (map_completion Status r, e', s'))"
| "exec K (Boolean a b op t) e n s =
     (case occt_boolean K a b op t e n s of (r, e', s') \<Rightarrow> (map_completion Handle r, e', s'))"
| "exec K (Fillet t ids cnt r tol) e n s =
     (case occt_fillet t ids cnt r tol e n s of (h, e', s') \<Rightarrow> (Returns (Handle h), e', s'))"
| "exec K (GenerateMeshObj h d l ob ol) e n s =
     (case occt_generate_mesh_obj K h d l ob ol e n s of
        (r, ob', ol', e', s') \<Rightarrow> (map_completion Status r, e', s'))"
| "exec K (ReleaseHandle h) e n s =
     (case occt_release_handle h e n s of (r, e', s') \<Rightarrow> (Returns (Status r), e', s'))"

text \<open>A call that returned the failure value: handle 0, or status 0.\<close>

definition returned_failure :: "rv completion \<Rightarrow> bool" where
  "returned_failure r = (r = Returns (Handle 0) \<or> r = Returns (Status 0))"

text \<open>A call that succeeded: it returned, and what it returned is not the failure value.\<close>

definition succeeded :: "rv completion \<Rightarrow> bool" where
  "succeeded r =
     (case r of
        Returns (Handle h) \<Rightarrow> h \<noteq> 0
      | Returns (Status v) \<Rightarrow> v \<noteq> 0
      | Escapes \<Rightarrow> False
      | OutOfBounds \<Rightarrow> False)"

text \<open>
  A call that failed: every call that did not succeed, whether it returned the failure
  value or was ended by an exception that left the function or by an out-of-bounds read.
\<close>

definition failed :: "rv completion \<Rightarrow> bool" where
  "failed r = (\<not> succeeded r)"

text \<open>
  A run of the library: calls made one after the other, each with the collaborators as they
  behave during that call and with its own error buffer. \<open>run\<close> gives the state at the end,
  \<open>trace\<close> what each call returned together with the state before and after it.
\<close>

type_synonym ('shape, 'd) step = "('shape, 'd) kernel \<times> 'd call \<times> cbuf \<times> int"

fun run :: "('shape, 'd) step list \<Rightarrow> 'shape state \<Rightarrow> 'shape state" where
  "run [] s = s"
| "run ((K, c, e, n) # cs) s = run cs (snd (snd (exec K c e n s)))"

fun trace ::
  "('shape, 'd) step list \<Rightarrow> 'shape state
     \<Rightarrow> ('shape state \<times> rv completion \<times> 'shape state) list" where
  "trace [] s = []"
| "trace ((K, c, e, n) # cs) s =
     (case exec K c e n s of (r, e', s') \<Rightarrow> (s, r, s') # trace cs s')"

text \<open>The handles a run gave out: the non-zero handles its calls returned, in order.\<close>

fun issued :: "('shape state \<times> rv completion \<times> 'shape state) list \<Rightarrow> handle list" where
  "issued [] = []"
| "issued ((s, Returns (Handle h), s') # tr) = (if h \<noteq> 0 then h # issued tr else issued tr)"
| "issued (x # tr) = issued tr"

text \<open>The states the library can be in after fewer than \<open>2 ^ 62\<close> calls, each of which
  advances the 64-bit counter at most twice.\<close>

definition reachable :: "('shape, 'd) step list \<Rightarrow> 'shape state \<Rightarrow> bool" where
  "reachable cs s = (length cs < 2 ^ 62 \<and> s = run cs init_state)"

subsection \<open>A concrete collaborator\<close>

text \<open>
  A small stand-in for the kernel, on which the functions above can be run: a shape is a
  number, a double is an integer. Every file reads as STEP and gives the shape 5, the
  boolean algorithms add, subtract and take the minimum, and every shape meshes into the two
  triangular faces \<open>face_A\<close> and \<open>face_B\<close>, which share the edge from \<open>(0, 0, 0)\<close> to
  \<open>(1, 1, 0)\<close>, with a face without triangulation between them.
\<close>

definition face_A :: "int triangulation" where
  "face_A = \<lparr>nodes = [(0, 0, 0), (1, 0, 0), (1, 1, 0)], triangles = [(1, 2, 3)],
             loc = (\<lambda>p. p)\<rparr>"

definition face_B :: "int triangulation" where
  "face_B = \<lparr>nodes = [(0, 0, 0), (1, 1, 0), (0, 1, 0)], triangles = [(1, 2, 3)],
             loc = (\<lambda>p. p)\<rparr>"

definition test_kernel :: "(nat, int) kernel" where
  "test_kernel =
     \<lparr>create_file = (\<lambda>name. True),
      step_read = (\<lambda>name bytes. Ok (Some (Shape 5))),
      iges_read = (\<lambda>name bytes. Ok None),
      step_export = (\<lambda>name shape. Ok (FileBytes ''ISO-10303-21;'')),
      mem_avail = (\<lambda>n. True),
      bnd_box = (\<lambda>shape. Ok (0, 0, 0, 1, 1, 1)),
      fuse = (\<lambda>a b t. Ok (Some (a + b))),
      cut = (\<lambda>a b t. Ok (Some (a - b))),
      common = (\<lambda>a b t. Ok (Some (min a b))),
      positive = (\<lambda>d. 0 < d),
      tenth = 1,
      incremental_mesh = (\<lambda>shape defl l. Ok [Some face_A, None, Some face_B]),
      show_double = show_int\<rparr>"

text \<open>The same collaborator with an allocator that has no memory left.\<close>

definition starved_kernel :: "(nat, int) kernel" where
  "starved_kernel = test_kernel\<lparr>mem_avail := (\<lambda>n. False)\<rparr>"

text \<open>
  The same collaborator with a kernel whose readers, writer, bounding-box computation,
  boolean algorithms and mesher all throw an exception that is not a \<open>std::exception\<close>.
\<close>

definition throwing_kernel :: "(nat, int) kernel" where
  "throwing_kernel =
     test_kernel
       \<lparr>step_read := (\<lambda>name bytes. ThrowsOther),
        iges_read := (\<lambda>name bytes. ThrowsOther),
        step_export := (\<lambda>name shape. ThrowsOther),
        bnd_box := (\<lambda>shape. ThrowsOther),
        fuse := (\<lambda>a b t. ThrowsOther),
        cut := (\<lambda>a b t. ThrowsOther),
        common := (\<lambda>a b t. ThrowsOther),
        incremental_mesh := (\<lambda>shape defl l. ThrowsOther)\<rparr>"

text \<open>A state with one shape registered under handle 2, as the first load leaves it
  (handle 1 went into the name of the temporary file).\<close>

definition one_shape :: "nat state" where
  "one_shape = \<lparr>shape_registry = [2 \<mapsto> 5], next_handle = 3, heap = Map.empty, brk = 0\<rparr>"

text \<open>A run of five calls: a load, a fillet of the loaded shape, its release, a union of
  the fillet's result with itself, and a cut with a handle that was never given out.\<close>

definition demo_run :: "(nat, int) step list" where
  "demo_run =
     [(test_kernel, LoadFromMemory (Some ''a.step'') (Some [1, 2, 3, 4, 5]) 5, None, 0),
      (test_kernel, Fillet 2 None 0 0 0, None, 0),
      (test_kernel, ReleaseHandle 2, None, 0),
      (test_kernel, Boolean 3 3 (Some ''union'') 0, None, 0),
      (test_kernel, Boolean 3 9 (Some ''cut'') 0, None, 0)]"

subsection \<open>The counter before it wraps\<close>

text \<open>
  What holds of the counter and the registry as long as the 64-bit counter has not wrapped:
  the counter is not 0, and every registered handle is not 0 and below the counter.
\<close>

definition counter_ok :: "'shape state \<Rightarrow> bool" where
  "counter_ok s =
     (next_handle s \<noteq> 0
      \<and> (\<forall>h. shape_registry s h \<noteq> None \<longrightarrow> h \<noteq> 0 \<and> h < next_handle s))"

text \<open>
  The two ways a call can act on counter and registry. It is \<open>quiet\<close> when it gives out
  no handle: the counter advances at most once (for the name of a temporary file), no
  entry is added or altered, and if the call returns a handle at all, that handle is 0 and
  the registry is as before. It \<open>issues\<close> when it returns the counter's value (possibly
  after one advance), leaves the counter just past it, and registers a shape under it.
\<close>

definition quiet :: "'shape state \<Rightarrow> rv completion \<Rightarrow> 'shape state \<Rightarrow> bool" where
  "quiet s r s' =
     ((next_handle s' = next_handle s \<or> next_handle s' = next_handle s + 1)
      \<and> (\<forall>h. shape_registry s' h \<noteq> None \<longrightarrow> shape_registry s' h = shape_registry s h)
      \<and> (\<forall>h. r = Returns (Handle h) \<longrightarrow> h = 0 \<and> shape_registry s' = shape_registry s))"

definition issues :: "'shape state \<Rightarrow> rv completion \<Rightarrow> 'shape state \<Rightarrow> bool" where
  "issues s r s' =
     (\<exists>h x. (h = next_handle s \<or> h = next_handle s + 1)
        \<and> r = Returns (Handle h)
        \<and> next_handle s' = h + 1
        \<and> shape_registry s' = (shape_registry s)(h \<mapsto> x))"

text \<open>The error buffer \<open>e'\<close> after a call is what \<open>write_error\<close> makes of the buffer
  \<open>e\<close> before it, for some diagnostic that is not empty.\<close>

definition diag_written :: "cbuf \<Rightarrow> int \<Rightarrow> cbuf \<Rightarrow> bool" where
  "diag_written e n e' = (\<exists>msg. c_str msg \<noteq> [] \<and> e' = write_error msg e n)"

subsection \<open>The mesh export as the specification words it\<close>









section \<open>Counter and registry along a run\<close>

text \<open>
  Every call is quiet or issues; either way the counter only grows, by at most two, and
  the registry stays below it, as long as the counter has room.
\<close>

lemma status_not_handle [simp]: "map_completion Status r \<noteq> Returns (Handle h)"
  by (cases r) simp_all

lemma load_effect:
  assumes "occt_load_from_memory K f d l e n s = (h, e', s')"
  shows "quiet s (Returns (Handle h)) s' \<or> issues s (Returns (Handle h)) s'"
  using assms
  by (auto simp: occt_load_from_memory_def write_temp_file_def fetch_add_def load_transfer_def
        load_caught_def register_def quiet_def issues_def Let_def
        split: option.splits if_splits kout.splits transfer.splits prod.splits)

lemma boolean_branch_effect:
  assumes "boolean_branch name k e n s = (r, e', s')"
  shows "quiet s (map_completion Handle r) s' \<or> issues s (map_completion Handle r) s'"
  using assms
  by (auto simp: boolean_branch_def fetch_add_def register_def quiet_def issues_def
        split: option.splits kout.splits prod.splits)

lemma boolean_effect:
  assumes "occt_boolean K a b op t e n s = (r, e', s')"
  shows "quiet s (map_completion Handle r) s' \<or> issues s (map_completion Handle r) s'"
proof -
  have q: "quiet s (Returns (Handle 0)) s"
    by (simp add: quiet_def)
  show ?thesis
    using assms q
    by (auto simp: occt_boolean_def Let_def dest: boolean_branch_effect
          split: option.splits if_splits)
qed

lemma fillet_effect:
  assumes "occt_fillet t ids cnt rad tol e n s = (h, e', s')"
  shows "quiet s (Returns (Handle h)) s' \<or> issues s (Returns (Handle h)) s'"
  using assms
  by (auto simp: occt_fillet_def fetch_add_def register_def quiet_def issues_def
        split: option.splits prod.splits)

lemma hand_over_state:
  assumes "hand_over K bytes e n s = (r, ob, ol, e', s')"
  shows "shape_registry s' = shape_registry s \<and> next_handle s' = next_handle s"
  using assms
  by (auto simp: hand_over_def malloc_def memcpy_def Let_def split: if_splits)

lemma export_effect:
  assumes "occt_export_step K h ob ol e n s = (r, ob', ol', e', s')"
  shows "quiet s (map_completion Status r) s'"
  using assms
  by (auto simp: occt_export_step_def quiet_def dest: hand_over_state
        split: option.splits if_splits kout.splits export_result.splits)

lemma mesh_effect:
  assumes "occt_generate_mesh_obj K h d l ob ol e n s = (r, ob', ol', e', s')"
  shows "quiet s (map_completion Status r) s'"
  using assms
  by (auto simp: occt_generate_mesh_obj_def quiet_def Let_def dest: hand_over_state
        split: option.splits if_splits kout.splits prod.splits)

lemma bounds_effect:
  assumes "occt_get_bounds K h out e n s = (r, out', e', s')"
  shows "quiet s (map_completion Status r) s'"
  using assms
  by (auto simp: occt_get_bounds_def quiet_def
        split: option.splits kout.splits prod.splits)

lemma release_effect:
  assumes "occt_release_handle h e n s = (r, e', s')"
  shows "quiet s (Returns (Status r)) s'"
  using assms
  by (auto simp: occt_release_handle_def quiet_def split: option.splits if_splits)

lemma exec_effect:
  assumes "exec K c e n s = (r, e', s')"
  shows "quiet s r s' \<or> issues s r s'"
proof (cases c)
  case (Init p)
  with assms show ?thesis
    by (auto simp: occt_init_def quiet_def)
next
  case (LoadFromMemory f d l)
  with assms show ?thesis
    by (auto dest: load_effect split: prod.splits)
next
  case (ExportStep h ob ol)
  with assms show ?thesis
    by (auto dest: export_effect split: prod.splits)
next
  case (GetBounds h out)
  with assms show ?thesis
    by (auto dest: bounds_effect split: prod.splits)
next
  case (Boolean a b op t)
  with assms show ?thesis
    by (auto dest: boolean_effect split: prod.splits)
next
  case (Fillet t ids cnt rad tol)
  with assms show ?thesis
    by (auto dest: fillet_effect split: prod.splits)
next
  case (GenerateMeshObj h d l ob ol)
  with assms show ?thesis
    by (auto dest: mesh_effect split: prod.splits)
next
  case (ReleaseHandle h)
  with assms show ?thesis
    by (auto dest: release_effect split: prod.splits)
qed

lemma unat_succ: "unat (w :: handle) + 1 < 2 ^ 64 \<Longrightarrow> unat (w + 1) = unat w + 1"
  using unat_add_lem [of w 1] by simp

lemma unat_succ2: "unat (w :: handle) + 2 < 2 ^ 64 \<Longrightarrow> unat (w + 2) = unat w + 2"
  using unat_add_lem [of w 2] by simp

lemma quiet_counter:
  assumes "quiet s r s'" "counter_ok s" "unat (next_handle s) + 2 < 2 ^ 64"
  shows "counter_ok s' \<and> unat (next_handle s) \<le> unat (next_handle s')
         \<and> unat (next_handle s') \<le> unat (next_handle s) + 1"
proof -
  from assms(1) have reg: "\<And>h. shape_registry s' h \<noteq> None \<Longrightarrow> shape_registry s h \<noteq> None"
    by (auto simp: quiet_def)
  from assms(1) consider "next_handle s' = next_handle s" | "next_handle s' = next_handle s + 1"
    by (auto simp: quiet_def)
  then show ?thesis
  proof cases
    case 1
    with assms(2) reg show ?thesis
      by (auto simp: counter_ok_def)
  next
    case 2
    from assms(3) have u: "unat (next_handle s + 1) = unat (next_handle s) + 1"
      by (simp add: unat_succ)
    have "h \<noteq> 0 \<and> h < next_handle s'" if "shape_registry s' h \<noteq> None" for h
    proof -
      from reg [OF that] assms(2) have "h \<noteq> 0" "h < next_handle s"
        by (auto simp: counter_ok_def)
      with u 2 show ?thesis
        by (simp add: word_less_nat_alt)
    qed
    moreover from u 2 have "next_handle s' \<noteq> 0"
      by (metis Suc_eq_plus1 nat.distinct(1) unat_0)
    ultimately show ?thesis
      using u 2 by (simp add: counter_ok_def)
  qed
qed

lemma issues_counter:
  assumes "issues s r s'" "counter_ok s" "unat (next_handle s) + 2 < 2 ^ 64"
  shows "counter_ok s' \<and> unat (next_handle s) < unat (next_handle s')
         \<and> unat (next_handle s') \<le> unat (next_handle s) + 2
         \<and> (\<exists>h. r = Returns (Handle h) \<and> h \<noteq> 0 \<and> next_handle s \<le> h \<and> h < next_handle s'
                \<and> shape_registry s h = None \<and> shape_registry s' h \<noteq> None)"
proof -
  from assms(1) obtain h x where h: "h = next_handle s \<or> h = next_handle s + 1"
    and r: "r = Returns (Handle h)" and n: "next_handle s' = h + 1"
    and reg: "shape_registry s' = (shape_registry s)(h \<mapsto> x)"
    by (auto simp: issues_def)
  from assms(3) have u1: "unat (next_handle s + 1) = unat (next_handle s) + 1"
    by (simp add: unat_succ)
  from assms(3) have u2: "unat (next_handle s + 2) = unat (next_handle s) + 2"
    by (simp add: unat_succ2)
  from h u1 have hge: "unat (next_handle s) \<le> unat h" "unat h \<le> unat (next_handle s) + 1"
    by auto
  from h u1 u2 n have hn: "unat (next_handle s') = unat h + 1"
    by (auto simp: add.commute)
  from assms(2) have pos: "0 < unat (next_handle s)"
    by (simp add: counter_ok_def unat_gt_0)
  with hge have h0: "h \<noteq> 0"
    by (metis less_le_trans less_numeral_extra(3) unat_0)
  from assms(2) hge have fresh: "shape_registry s h = None"
    by (auto simp: counter_ok_def word_less_nat_alt)
  have "k \<noteq> 0 \<and> k < next_handle s'" if "shape_registry s' k \<noteq> None" for k
  proof (cases "k = h")
    case True
    with h0 hn show ?thesis
      by (simp add: word_less_nat_alt)
  next
    case False
    with that reg have "shape_registry s k \<noteq> None"
      by simp
    with assms(2) have "k \<noteq> 0" "unat k < unat (next_handle s)"
      by (auto simp: counter_ok_def word_less_nat_alt)
    with hge hn show ?thesis
      by (simp add: word_less_nat_alt)
  qed
  moreover from hn have "next_handle s' \<noteq> 0"
    by (metis Suc_eq_plus1 nat.distinct(1) unat_0)
  ultimately have "counter_ok s'"
    by (simp add: counter_ok_def)
  moreover from hge hn have "next_handle s \<le> h" "h < next_handle s'"
    by (simp_all add: word_le_nat_alt word_less_nat_alt)
  ultimately show ?thesis
    using hge hn r h0 fresh reg by auto
qed


lemma exec_counter:
  assumes "exec K c e n s = (r, e', s')" "counter_ok s" "unat (next_handle s) + 2 < 2 ^ 64"
  shows "counter_ok s' \<and> unat (next_handle s) \<le> unat (next_handle s')
         \<and> unat (next_handle s') \<le> unat (next_handle s) + 2"
  using exec_effect [OF assms(1)] quiet_counter [OF _ assms(2,3)] issues_counter [OF _ assms(2,3)]
  by fastforce

lemma run_counter:
  assumes "counter_ok s" "unat (next_handle s) + 2 * length cs < 2 ^ 64"
  shows "counter_ok (run cs s) \<and> unat (next_handle (run cs s)) \<le> unat (next_handle s) + 2 * length cs"
  using assms
proof (induction cs arbitrary: s)
  case Nil
  then show ?case by simp
next
  case (Cons c cs)
  obtain K cl e n where c: "c = (K, cl, e, n)"
    by (cases c) auto
  obtain r e' s' where ex: "exec K cl e n s = (r, e', s')"
    by (cases "exec K cl e n s") auto
  from Cons.prems have room: "unat (next_handle s) + 2 < 2 ^ 64"
    by simp
  from exec_counter [OF ex Cons.prems(1) room]
  have ok: "counter_ok s'" and up: "unat (next_handle s') \<le> unat (next_handle s) + 2"
    by simp_all
  from up Cons.prems(2) have "unat (next_handle s') + 2 * length cs < 2 ^ 64"
    by simp
  from Cons.IH [OF ok this] up c ex show ?case
    by simp
qed

lemma init_counter_ok: "counter_ok init_state"
  by (simp add: counter_ok_def init_state_def)

lemma reachable_counter:
  assumes "reachable cs s"
  shows "counter_ok s \<and> unat (next_handle s) + 2 < 2 ^ 64"
proof -
  from assms have len: "length cs < 2 ^ 62" and s: "s = run cs (init_state :: 'a state)"
    by (simp_all add: reachable_def)
  have one: "unat (next_handle (init_state :: 'a state)) = 1"
    by (simp add: init_state_def)
  from len have "unat (next_handle (init_state :: 'a state)) + 2 * length cs < 2 ^ 64"
    unfolding one by simp
  from run_counter [OF init_counter_ok this] s one len show ?thesis
    by simp
qed

lemma trace_handles:
  assumes "counter_ok s" "unat (next_handle s) + 2 * length cs < 2 ^ 64"
  shows "sorted_wrt (<) (issued (trace cs s))
         \<and> (\<forall>h\<in>set (issued (trace cs s)). next_handle s \<le> h)
         \<and> (\<forall>(a, r, b)\<in>set (trace cs s). \<forall>h. r = Returns (Handle h) \<longrightarrow>
               (if h = 0 then shape_registry b = shape_registry a
                else shape_registry a h = None \<and> shape_registry b h \<noteq> None))"
  using assms
proof (induction cs arbitrary: s)
  case Nil
  then show ?case by simp
next
  case (Cons c cs)
  obtain K cl e n where c: "c = (K, cl, e, n)"
    by (cases c) auto
  obtain r e' s' where ex: "exec K cl e n s = (r, e', s')"
    by (cases "exec K cl e n s") auto
  from Cons.prems have room: "unat (next_handle s) + 2 < 2 ^ 64"
    by simp
  from exec_counter [OF ex Cons.prems(1) room]
  have ok: "counter_ok s'" and up: "unat (next_handle s') \<le> unat (next_handle s) + 2"
    and mono: "unat (next_handle s) \<le> unat (next_handle s')"
    by simp_all
  from up Cons.prems(2) have "unat (next_handle s') + 2 * length cs < 2 ^ 64"
    by simp
  from Cons.IH [OF ok this]
  have srt: "sorted_wrt (<) (issued (trace cs s'))"
    and low: "\<forall>h\<in>set (issued (trace cs s')). next_handle s' \<le> h"
    and stp: "\<forall>(a, r, b)\<in>set (trace cs s'). \<forall>h. r = Returns (Handle h) \<longrightarrow>
               (if h = 0 then shape_registry b = shape_registry a
                else shape_registry a h = None \<and> shape_registry b h \<noteq> None)"
    by simp_all
  from mono have mono': "next_handle s \<le> next_handle s'"
    by (simp add: word_le_nat_alt)
  have tr: "trace (c # cs) s = (s, r, s') # trace cs s'"
    using c ex by simp
  from exec_effect [OF ex] show ?case
  proof
    assume q: "quiet s r s'"
    then have here: "\<forall>h. r = Returns (Handle h) \<longrightarrow> h = 0 \<and> shape_registry s' = shape_registry s"
      by (simp add: quiet_def)
    then have iss: "issued ((s, r, s') # trace cs s') = issued (trace cs s')"
      by (cases r; cases "case r of Returns v \<Rightarrow> v") auto
    from here srt low stp mono' show ?thesis
      unfolding tr iss by fastforce
  next
    assume "issues s r s'"
    from issues_counter [OF this Cons.prems(1) room]
    obtain h where h: "r = Returns (Handle h)" "h \<noteq> 0" "next_handle s \<le> h"
      "h < next_handle s'" "shape_registry s h = None" "shape_registry s' h \<noteq> None"
      by auto
    then have iss: "issued ((s, r, s') # trace cs s') = h # issued (trace cs s')"
      by simp
    from h srt low stp mono' show ?thesis
      unfolding tr iss by fastforce
  qed
qed

section \<open>The error buffer along the paths of each function\<close>

lemma c_str_literal [simp]: "c \<noteq> CHR 0x00 \<Longrightarrow> c_str (c # cs) \<noteq> []"
  by (simp add: c_str_def)

lemma diag_writtenI [simp]: "c_str msg \<noteq> [] \<Longrightarrow> diag_written e n (write_error msg e n)"
  by (auto simp: diag_written_def)

lemma returned_failure_handle [simp]: "returned_failure (map_completion Handle r) \<longleftrightarrow> r = Returns 0"
  by (cases r) (auto simp: returned_failure_def)

lemma returned_failure_status [simp]: "returned_failure (map_completion Status r) \<longleftrightarrow> r = Returns 0"
  by (cases r) (auto simp: returned_failure_def)

lemma returned_failure_returns [simp]:
  "returned_failure (Returns (Handle h)) \<longleftrightarrow> h = 0"
  "returned_failure (Returns (Status v)) \<longleftrightarrow> v = 0"
  by (auto simp: returned_failure_def)

lemma not_returned_failure [simp]:
  "\<not> returned_failure Escapes" "\<not> returned_failure OutOfBounds"
  by (simp_all add: returned_failure_def)

lemma hand_over_err:
  assumes "hand_over K bytes e n s = (r, ob, ol, e', s')"
  shows "(r = Returns 0 \<and> e' = write_error ''malloc failed'' e n) \<or> (r = Returns 1 \<and> e' = e)"
  using assms by (auto simp: hand_over_def malloc_def Let_def split: if_splits)

lemma load_err:
  assumes "occt_load_from_memory K f d l e n s = (h, e', s')" "next_handle s + 1 \<noteq> 0"
  shows "(h = 0 \<longrightarrow> diag_written e n e') \<and> (h \<noteq> 0 \<longrightarrow> e' = e)"
  using assms
    by (auto simp: occt_load_from_memory_def write_temp_file_def fetch_add_def
          load_transfer_def load_caught_def Let_def
          split: option.splits if_splits kout.splits transfer.splits prod.splits)


lemma boolean_branch_err:
  assumes "boolean_branch name k e n s = (r, e', s')" "next_handle s \<noteq> 0"
    "c_str (name @ '' failed'') \<noteq> []"
  shows "(r = Returns 0 \<longrightarrow> diag_written e n e') \<and> (r \<noteq> Returns 0 \<longrightarrow> e' = e)"
  using assms
  by (auto simp: boolean_branch_def fetch_add_def split: kout.splits option.splits)

lemma boolean_err:
  assumes "occt_boolean K a b op t e n s = (r, e', s')" "next_handle s \<noteq> 0"
  shows "(r = Returns 0 \<longrightarrow> diag_written e n e') \<and> (r \<noteq> Returns 0 \<longrightarrow> e' = e)"
proof (cases "shape_registry s a \<noteq> None \<and> shape_registry s b \<noteq> None")
  case False
  with assms show ?thesis
    by (auto simp: occt_boolean_def split: option.splits)
next
  case True
  then obtain Ta Ua where reg: "shape_registry s a = Some Ta" "shape_registry s b = Some Ua"
    by auto
  have names: "c_str (''fuse'' @ '' failed'') \<noteq> []" "c_str (''cut'' @ '' failed'') \<noteq> []"
    "c_str (''common'' @ '' failed'') \<noteq> []"
    by simp_all
  from assms(1) reg consider
      "boolean_branch ''fuse'' (fuse K Ta Ua t) e n s = (r, e', s')"
    | "boolean_branch ''cut'' (cut K Ta Ua t) e n s = (r, e', s')"
    | "boolean_branch ''common'' (common K Ta Ua t) e n s = (r, e', s')"
    | "r = Returns 0" "e' = write_error ''unknown boolean operation'' e n"
    by (auto simp: occt_boolean_def Let_def split: if_splits)
  then show ?thesis
  proof cases
    case 1
    from boolean_branch_err [OF this assms(2) names(1)] show ?thesis .
  next
    case 2
    from boolean_branch_err [OF this assms(2) names(2)] show ?thesis .
  next
    case 3
    from boolean_branch_err [OF this assms(2) names(3)] show ?thesis .
  next
    case 4
    then show ?thesis by simp
  qed
qed

lemma exec_err:
  assumes "exec K c e n s = (r, e', s')" "next_handle s \<noteq> 0" "next_handle s + 1 \<noteq> 0"
  shows "(returned_failure r \<longrightarrow> diag_written e n e') \<and> (\<not> returned_failure r \<longrightarrow> e' = e)"
proof (cases c)
  case (Init p)
  with assms show ?thesis
    by (auto simp: occt_init_def)
next
  case (LoadFromMemory f d l)
  with assms show ?thesis
    by (auto dest: load_err split: prod.splits)
next
  case (ExportStep h ob ol)
  with assms show ?thesis
    by (auto simp: occt_export_step_def dest!: hand_over_err
          split: option.splits if_splits kout.splits export_result.splits prod.splits)
next
  case (GetBounds h out)
  with assms show ?thesis
    by (auto simp: occt_get_bounds_def
          split: option.splits kout.splits prod.splits)
next
  case (Boolean a b op t)
  with assms show ?thesis
    by (auto dest: boolean_err split: prod.splits)
next
  case (Fillet t ids cnt rad tol)
  with assms show ?thesis
    by (auto simp: occt_fillet_def fetch_add_def split: option.splits prod.splits)
next
  case (GenerateMeshObj h d l ob ol)
  with assms show ?thesis
    by (auto simp: occt_generate_mesh_obj_def Let_def dest!: hand_over_err
          split: option.splits if_splits kout.splits prod.splits)
next
  case (ReleaseHandle h)
  with assms show ?thesis
    by (auto simp: occt_release_handle_def split: option.splits)
qed

lemma exec_indep:
  "fst (exec K c e2 n2 s) = fst (exec K c e n s)
   \<and> snd (snd (exec K c e2 n2 s)) = snd (snd (exec K c e n s))"
proof (cases c)
  case (Init p)
  then show ?thesis
    by (simp add: occt_init_def)
next
  case (LoadFromMemory f d l)
  then show ?thesis
    by (simp add: occt_load_from_memory_def write_temp_file_def fetch_add_def
          load_transfer_def load_caught_def Let_def
          split: option.splits kout.splits transfer.splits prod.splits)
next
  case (ExportStep h ob ol)
  then show ?thesis
    by (simp add: occt_export_step_def hand_over_def malloc_def Let_def
          split: option.splits kout.splits export_result.splits prod.splits)
next
  case (GetBounds h out)
  then show ?thesis
    by (simp add: occt_get_bounds_def split: option.splits kout.splits prod.splits)
next
  case (Boolean a b op t)
  then show ?thesis
    by (simp add: occt_boolean_def boolean_branch_def fetch_add_def Let_def
          split: option.splits kout.splits prod.splits)
next
  case (Fillet t ids cnt rad tol)
  then show ?thesis
    by (simp add: occt_fillet_def fetch_add_def split: option.splits prod.splits)
next
  case (GenerateMeshObj h d l ob ol)
  then show ?thesis
    by (simp add: occt_generate_mesh_obj_def hand_over_def malloc_def Let_def
          split: option.splits kout.splits prod.splits)
next
  case (ReleaseHandle h)
  then show ?thesis
    by (simp add: occt_release_handle_def split: option.splits)
qed

lemma failed_iff: "failed r \<longleftrightarrow> returned_failure r \<or> r = Escapes \<or> r = OutOfBounds"
  by (auto simp: failed_def succeeded_def returned_failure_def split: completion.splits rv.splits)

section \<open>Properties\<close>

subsection \<open>Release\<close>

text \<open>
  Claim C4. For a handle \<open>h\<close> present in the registry, \<open>occt_release_handle\<close> returns 1,
  leaves the error buffer alone and removes \<open>h\<close> and nothing else; the same call repeated
  at once returns 0, writes the diagnostic "handle not found" and changes nothing.
\<close>

theorem release_then_release_again:
  assumes "shape_registry s h = Some x"
  shows "case occt_release_handle h e n s of
           (r1, e1, s1) \<Rightarrow>
             r1 = 1 \<and> e1 = e \<and> shape_registry s1 h = None
             \<and> (\<forall>k. k \<noteq> h \<longrightarrow> shape_registry s1 k = shape_registry s k)
             \<and> occt_release_handle h e2 n2 s1
                 = (0, write_error ''handle not found'' e2 n2, s1)"
  using assms by (simp add: occt_release_handle_def)

theorem release_then_release_again_witness:
  "case occt_release_handle 2 None 0 one_shape of
     (r1, e1, s1) \<Rightarrow>
       r1 = 1 \<and> shape_registry s1 2 = None
       \<and> occt_release_handle 2 (Some ''................'') 8 s1
           = (0, Some (''handle '' @ [CHR 0x00] @ ''........''), s1)"
proof -
  have reg: "shape_registry one_shape 2 = Some 5"
    by (simp add: one_shape_def)
  have msg: "write_error ''handle not found'' (Some ''................'') 8
               = Some (''handle '' @ [CHR 0x00] @ ''........'')"
    by (simp add: write_error_def snprintf_def c_str_def)
  show ?thesis
    using release_then_release_again
            [where e = None and n = 0 and ?e2.0 = "Some ''................''" and ?n2.0 = 8,
             OF reg] msg
    by (simp split: prod.splits)
qed

subsection \<open>Loading nothing\<close>

text \<open>
  Claim C5. Whatever the file name, \<open>occt_load_from_memory\<close> on a null pointer or on a
  length of 0 returns handle 0, writes the diagnostic "empty input data" and leaves the
  state as it was: the registry is unchanged and the counter has not moved.
\<close>

theorem load_empty_fails:
  assumes "data = None \<or> len = 0"
  shows "occt_load_from_memory K filename data len e n s
           = (0, write_error ''empty input data'' e n, s)"
  using assms by (auto simp: occt_load_from_memory_def split: option.splits)

theorem load_empty_fails_witness:
  "occt_load_from_memory test_kernel (Some ''part.step'') (Some []) 0
       (Some ''........................'') 24 one_shape
     = (0, Some (''empty input data'' @ [CHR 0x00] @ ''.......''), one_shape)"
proof -
  have msg: "write_error ''empty input data'' (Some ''........................'') 24
               = Some (''empty input data'' @ [CHR 0x00] @ ''.......'')"
    by (simp add: write_error_def snprintf_def c_str_def)
  have "Some ([] :: byte list) = None \<or> (0 :: nat) = 0"
    by simp
  from load_empty_fails
         [where K = test_kernel and filename = "Some ''part.step''" and s = one_shape
            and e = "Some ''........................''" and n = 24, OF this] msg
  show ?thesis
    by simp
qed

subsection \<open>Null output pointers\<close>

text \<open>
  Claim C10. When the pointer to the buffer variable or the pointer to the length variable
  is null, \<open>occt_export_step\<close> and \<open>occt_generate_mesh_obj\<close> return 0 with the diagnostic
  "invalid output pointers"; the result mentions neither the registry nor a collaborator,
  and the state is the one the call started in.
\<close>

theorem null_output_pointers_rejected:
  assumes "out_buf = None \<or> out_len = None"
  shows "occt_export_step K h out_buf out_len e n s
           = (Returns 0, out_buf, out_len, write_error ''invalid output pointers'' e n, s)
         \<and> occt_generate_mesh_obj K h d l out_buf out_len e n s
           = (Returns 0, out_buf, out_len, write_error ''invalid output pointers'' e n, s)"
  using assms by (auto simp: occt_export_step_def occt_generate_mesh_obj_def)

theorem null_output_pointers_rejected_witness:
  "occt_export_step test_kernel 2 None (Some 0) None 0 one_shape
     = (Returns 0, None, Some 0, None, one_shape)
   \<and> occt_generate_mesh_obj test_kernel 2 0 0 None (Some 0) None 0 one_shape
     = (Returns 0, None, Some 0, None, one_shape)"
proof -
  have "(None :: nat option) = None \<or> Some (0 :: nat) = None"
    by simp
  from null_output_pointers_rejected
         [where K = test_kernel and h = 2 and e = None and n = 0 and s = one_shape
            and d = 0 and l = 0, OF this]
  show ?thesis
    by (simp add: write_error_def)
qed

subsection \<open>Boolean operations\<close>

text \<open>
  Claim C9. \<open>occt_boolean\<close> called with "union" and with "fuse" gives the same result, the
  same diagnostic and the same state, for all handles, tolerances and collaborators, and
  so it does with "common" and with "intersect".
\<close>

theorem boolean_aliases_agree:
  "occt_boolean K a b (Some ''union'') t e n s = occt_boolean K a b (Some ''fuse'') t e n s
   \<and> occt_boolean K a b (Some ''common'') t e n s
       = occt_boolean K a b (Some ''intersect'') t e n s"
proof -
  have names: "op_string (Some ''union'') = ''union''" "op_string (Some ''fuse'') = ''fuse''"
    "op_string (Some ''common'') = ''common''" "op_string (Some ''intersect'') = ''intersect''"
    by (simp_all add: op_string_def c_str_def)
  show ?thesis
    by (simp add: occt_boolean_def names split: option.splits)
qed

text \<open>
  Claim C2, as the code has it. With an operation name outside the five known ones
  \<open>occt_boolean\<close> returns handle 0 and leaves the state alone, whatever the handles; the
  diagnostic is "unknown boolean operation" when both handles are registered, and
  "target or tool handle not found" when one of them is not, because the handles are
  looked up before the name is.
\<close>

theorem boolean_unknown_operation:
  assumes "op_string op \<notin> {''union'', ''fuse'', ''cut'', ''common'', ''intersect''}"
  shows "occt_boolean K a b op t e n s
           = (Returns 0,
              write_error
                (if shape_registry s a \<noteq> None \<and> shape_registry s b \<noteq> None
                 then ''unknown boolean operation''
                 else ''target or tool handle not found'') e n,
              s)"
  using assms by (auto simp: occt_boolean_def split: option.splits)

theorem boolean_unknown_operation_witness:
  "occt_boolean test_kernel 2 2 (Some ''bogus'') 0 None 0 one_shape
     = (Returns 0, None, one_shape)
   \<and> occt_boolean test_kernel 2 7 (Some ''bogus'') 0 None 0 one_shape
     = (Returns 0, None, one_shape)"
proof -
  have "op_string (Some ''bogus'') \<notin> {''union'', ''fuse'', ''cut'', ''common'', ''intersect''}"
    by (simp add: op_string_def c_str_def)
  from boolean_unknown_operation
         [where K = test_kernel and t = 0 and e = None and n = 0 and s = one_shape, OF this]
  show ?thesis
    by (simp add: write_error_def)
qed

text \<open>
  The claim as the specification words it fails: with handles that are not registered the
  diagnostic is not "unknown boolean operation".
\<close>

theorem boolean_unknown_operation_counterexample:
  "fst (snd (occt_boolean test_kernel 1 2 (Some ''bogus'') 0
               (Some (replicate 40 (CHR ''.''))) 40 init_state))
     \<noteq> write_error ''unknown boolean operation'' (Some (replicate 40 (CHR ''.''))) 40"
  by (simp add: occt_boolean_def init_state_def write_error_def snprintf_def c_str_def)

subsection \<open>Failed exports\<close>

text \<open>
  Claim C1, as the code has it. When \<open>occt_export_step\<close> or \<open>occt_generate_mesh_obj\<close>
  returns 0, the state is the one the call started in: no block has been allocated and no
  handle registered. The caller's buffer and length variables are untouched on every such
  failure but one: when the allocation of the result buffer fails (diagnostic
  "malloc failed"), the length of the result and the null pointer have already been stored
  in them.
\<close>

theorem failed_export_effects:
  "(case occt_export_step K h out_buf out_len e n s of
      (r, ob, ol, e', s') \<Rightarrow>
        r = Returns 0 \<longrightarrow>
          s' = s
          \<and> (ob = out_buf \<and> ol = out_len
             \<or> e' = write_error ''malloc failed'' e n \<and> ob = Some 0
                 \<and> (\<exists>k. ol = Some k \<and> \<not> mem_avail K k)))
   \<and> (case occt_generate_mesh_obj K h d l out_buf out_len e n s of
      (r, ob, ol, e', s') \<Rightarrow>
        r = Returns 0 \<longrightarrow>
          s' = s
          \<and> (ob = out_buf \<and> ol = out_len
             \<or> e' = write_error ''malloc failed'' e n \<and> ob = Some 0
                 \<and> (\<exists>k. ol = Some k \<and> \<not> mem_avail K k)))"
proof -
  have tail: "s' = s \<and> e' = write_error ''malloc failed'' e n \<and> ob = Some 0
                \<and> (\<exists>k. ol = Some k \<and> \<not> mem_avail K k)"
    if "hand_over K bytes e n s = (Returns 0, ob, ol, e', s')" for bytes ob ol e' s'
    using that by (auto simp: hand_over_def malloc_def Let_def split: if_splits)
  have export: "case occt_export_step K h out_buf out_len e n s of
      (r, ob, ol, e', s') \<Rightarrow>
        r = Returns 0 \<longrightarrow>
          s' = s
          \<and> (ob = out_buf \<and> ol = out_len
             \<or> e' = write_error ''malloc failed'' e n \<and> ob = Some 0
                 \<and> (\<exists>k. ol = Some k \<and> \<not> mem_avail K k))"
    by (auto simp: occt_export_step_def dest: tail
             split: option.splits kout.splits export_result.splits prod.splits)
  have mesh: "case occt_generate_mesh_obj K h d l out_buf out_len e n s of
      (r, ob, ol, e', s') \<Rightarrow>
        r = Returns 0 \<longrightarrow>
          s' = s
          \<and> (ob = out_buf \<and> ol = out_len
             \<or> e' = write_error ''malloc failed'' e n \<and> ob = Some 0
                 \<and> (\<exists>k. ol = Some k \<and> \<not> mem_avail K k))"
    by (auto simp: occt_generate_mesh_obj_def Let_def dest: tail
             split: option.splits kout.splits prod.splits)
  from export mesh show ?thesis ..
qed

theorem failed_export_effects_witness:
  "occt_export_step test_kernel 9 (Some 7) (Some 9) None 0 one_shape
     = (Returns 0, Some 7, Some 9, None, one_shape)
   \<and> fst (occt_generate_mesh_obj starved_kernel 2 0 0 (Some 7) (Some 9) None 0 one_shape)
     = Returns 0
   \<and> snd (snd (snd (snd
        (occt_generate_mesh_obj starved_kernel 2 0 0 (Some 7) (Some 9) None 0 one_shape))))
     = one_shape"
proof -
  have a: "occt_export_step test_kernel 9 (Some 7) (Some 9) None 0 one_shape
             = (Returns 0, Some 7, Some 9, None, one_shape)"
    by (simp add: occt_export_step_def one_shape_def write_error_def)
  have b: "fst (occt_generate_mesh_obj starved_kernel 2 0 0 (Some 7) (Some 9) None 0 one_shape)
             = Returns 0"
    by (simp add: occt_generate_mesh_obj_def one_shape_def starved_kernel_def test_kernel_def
          hand_over_def malloc_def Let_def face_A_def face_B_def at_def to_int_def)
  from failed_export_effects
         [where K = starved_kernel and h = 2 and d = 0 and l = 0 and out_buf = "Some 7"
            and out_len = "Some 9" and e = None and n = 0 and s = one_shape] a b
  show ?thesis
    by (auto split: prod.splits)
qed

text \<open>
  The claim as the specification words it fails: with a registered shape and an allocator
  that returns the null pointer, \<open>occt_export_step\<close> returns 0 and the caller's two
  variables, which held 7 and 9, now hold the null pointer and the length 13 of the file.
\<close>

theorem failed_export_effects_counterexample:
  "occt_export_step starved_kernel 2 (Some 7) (Some 9) None 0 one_shape
     = (Returns 0, Some 0, Some 13, None, one_shape)"
  by (simp add: occt_export_step_def one_shape_def starved_kernel_def test_kernel_def
        hand_over_def malloc_def write_error_def Let_def)

subsection \<open>Handles\<close>

text \<open>
  Claim C3. In a run of fewer than \<open>2 ^ 62\<close> calls from the initial state (the counter
  cannot wrap in such a run), the non-zero handles returned by load, boolean and fillet
  calls are strictly increasing in the order of the calls, so each is greater than every
  handle given out before it and no value occurs twice, whatever was released in between;
  each is at least 1; and a call that returns handle 0 has registered nothing, while a call
  that returns another handle has registered a shape under it, where none was before.
\<close>

theorem issued_handles_fresh:
  assumes "length cs < 2 ^ 62"
  shows "sorted_wrt (<) (issued (trace cs init_state))
         \<and> distinct (issued (trace cs init_state))
         \<and> (\<forall>h\<in>set (issued (trace cs init_state)). 1 \<le> h)
         \<and> (\<forall>(a, r, b)\<in>set (trace cs init_state). \<forall>h. r = Returns (Handle h) \<longrightarrow>
               (if h = 0 then shape_registry b = shape_registry a
                else shape_registry a h = None \<and> shape_registry b h \<noteq> None))"
proof -
  have one: "unat (next_handle (init_state :: 'a state)) = 1"
    by (simp add: init_state_def)
  from assms have "unat (next_handle (init_state :: 'a state)) + 2 * length cs < 2 ^ 64"
    unfolding one by simp
  from trace_handles [OF init_counter_ok this]
  show ?thesis
    by (auto simp: init_state_def strict_sorted_iff)
qed

theorem issued_handles_fresh_witness:
  "length demo_run < 2 ^ 62
   \<and> issued (trace demo_run init_state) = [2, 3, 4]
   \<and> sorted_wrt (<) (issued (trace demo_run init_state))
   \<and> distinct (issued (trace demo_run init_state))"
proof -
  have len: "length demo_run < 2 ^ 62"
    by (simp add: demo_run_def)
  have tr: "issued (trace demo_run init_state) = [2, 3, 4]"
    by (simp add: demo_run_def init_state_def test_kernel_def occt_load_from_memory_def
        write_temp_file_def fetch_add_def load_transfer_def register_def occt_fillet_def
        occt_release_handle_def occt_boolean_def boolean_branch_def op_string_def c_str_def
        write_error_def Let_def)
  from issued_handles_fresh [OF len] len tr show ?thesis
    by simp
qed

subsection \<open>Fillet\<close>

text \<open>
  Claim C6. In a state the library can be in, \<open>occt_fillet\<close> on a registered handle
  \<open>t\<close> returns the counter's value, a handle that is not 0, not \<open>t\<close> and not registered
  so far; afterwards that handle holds the very shape held by \<open>t\<close>, the entry of \<open>t\<close> and
  all others are as before, and the error buffer is untouched; edge list, radius and
  tolerance play no part. On a handle that is not registered it returns 0 with the
  diagnostic "target handle not found" and changes nothing.
\<close>

theorem fillet_duplicates_target:
  assumes "reachable cs s"
  shows "(\<forall>x. shape_registry s t = Some x \<longrightarrow>
            (case occt_fillet t edge_ids edge_count radius tolerance e n s of
               (h, e', s') \<Rightarrow>
                 h = next_handle s \<and> h \<noteq> 0 \<and> h \<noteq> t \<and> shape_registry s h = None
                 \<and> e' = e
                 \<and> shape_registry s' h = Some x \<and> shape_registry s' t = Some x
                 \<and> (\<forall>k. k \<noteq> h \<longrightarrow> shape_registry s' k = shape_registry s k)))
         \<and> (shape_registry s t = None \<longrightarrow>
              occt_fillet t edge_ids edge_count radius tolerance e n s
                = (0, write_error ''target handle not found'' e n, s))"
proof -
  from reachable_counter [OF assms] have ok: "counter_ok s"
    by simp
  then have nz: "next_handle s \<noteq> 0" and fresh: "shape_registry s (next_handle s) = None"
    by (auto simp: counter_ok_def)
  then have "next_handle s \<noteq> t" if "shape_registry s t = Some x" for x
    using that by auto
  with nz fresh show ?thesis
    by (auto simp: occt_fillet_def fetch_add_def register_def)
qed

theorem fillet_duplicates_target_witness:
  "reachable [hd demo_run] one_shape
   \<and> occt_fillet 2 (Some [7, 8]) 2 (1 :: int) (0 :: int) None 0 one_shape
       = (3, None, one_shape\<lparr>shape_registry := [2 \<mapsto> 5, 3 \<mapsto> 5], next_handle := 4\<rparr>)
   \<and> occt_fillet 9 None 0 (1 :: int) (0 :: int) None 0 one_shape = (0, None, one_shape)"
proof -
  have r: "reachable [hd demo_run] one_shape"
    by (simp add: reachable_def demo_run_def init_state_def test_kernel_def one_shape_def
        occt_load_from_memory_def write_temp_file_def fetch_add_def load_transfer_def
        register_def Let_def)
  have a: "occt_fillet 2 (Some [7, 8]) 2 (1 :: int) (0 :: int) None 0 one_shape
       = (3, None, one_shape\<lparr>shape_registry := [2 \<mapsto> 5, 3 \<mapsto> 5], next_handle := 4\<rparr>)"
    by (simp add: occt_fillet_def one_shape_def fetch_add_def register_def)
  have b: "shape_registry one_shape 9 = None"
    by (simp add: one_shape_def)
  from fillet_duplicates_target
         [where t = 9 and edge_ids = None and edge_count = 0 and radius = "1 :: int"
            and tolerance = "0 :: int" and e = None and n = 0, OF r] a b r
  show ?thesis
    by (simp add: write_error_def)
qed

subsection \<open>The error channel\<close>

lemma write_error_declined: "e = None \<or> n \<le> 0 \<Longrightarrow> write_error msg e n = e"
  by (auto simp: write_error_def split: option.splits)

lemma write_error_stored:
  assumes "0 < n"
  shows "write_error msg (Some buf) n
           = Some (take (nat n - 1) (c_str msg) @ CHR 0x00
                     # drop (min (nat n) (length (c_str msg) + 1)) buf)"
proof -
  from assms have "min (nat n - 1) (length (c_str msg)) + 1 = min (nat n) (length (c_str msg) + 1)"
    by auto
  with assms show ?thesis
    by (simp add: write_error_def snprintf_def Let_def min.commute)
qed

lemma c_str_no_nul: "CHR 0x00 \<notin> set (c_str msg)"
  by (auto simp: c_str_def dest: set_takeWhileD)

text \<open>
  The paths on which a call returns. In a state the library can be in: when the call
  returns the failure value, the error buffer afterwards is what \<open>write_error\<close> makes
  of it for some diagnostic that is not empty, which for a buffer \<open>buf\<close> that is not null
  and a capacity \<open>n > 0\<close> means that at most \<open>n - 1\<close> characters of the diagnostic,
  none of them NUL, and then a NUL stand at its start, the rest of \<open>buf\<close> being as
  before; in every other case, a call that does not return among them, the buffer is
  untouched; with a null buffer or a capacity \<open>n \<le> 0\<close> it is untouched in every case;
  and how the call ends and the state it leaves are the same for every error buffer and
  capacity.
\<close>

lemma error_channel_on_return:
  assumes "reachable cs s"
  shows "case exec K c e n s of
           (r, e', s') \<Rightarrow>
             (returned_failure r \<longrightarrow>
                (\<exists>msg. c_str msg \<noteq> [] \<and> CHR 0x00 \<notin> set (c_str msg)
                   \<and> e' = write_error msg e n
                   \<and> (\<forall>buf. e = Some buf \<and> 0 < n \<longrightarrow>
                         e' = Some (take (nat n - 1) (c_str msg) @ CHR 0x00
                                      # drop (min (nat n) (length (c_str msg) + 1)) buf))))
             \<and> (\<not> returned_failure r \<longrightarrow> e' = e)
             \<and> (e = None \<or> n \<le> 0 \<longrightarrow> e' = e)
             \<and> (\<forall>e2 n2. fst (exec K c e2 n2 s) = r \<and> snd (snd (exec K c e2 n2 s)) = s')"
proof -
  obtain r e' s' where ex: "exec K c e n s = (r, e', s')"
    by (cases "exec K c e n s") auto
  from reachable_counter [OF assms]
  have ok: "counter_ok s" and room: "unat (next_handle s) + 2 < 2 ^ 64"
    by simp_all
  from ok have nz: "next_handle s \<noteq> 0"
    by (simp add: counter_ok_def)
  from room have "unat (next_handle s + 1) = unat (next_handle s) + 1"
    by (simp add: unat_succ)
  then have nz1: "next_handle s + 1 \<noteq> 0"
    by (metis Suc_eq_plus1 nat.distinct(1) unat_0)
  from exec_err [OF ex nz nz1]
  have bad: "returned_failure r \<Longrightarrow> \<exists>msg. c_str msg \<noteq> [] \<and> e' = write_error msg e n"
    and good: "\<not> returned_failure r \<Longrightarrow> e' = e"
    by (simp_all add: diag_written_def)
  have a: "\<exists>msg. c_str msg \<noteq> [] \<and> CHR 0x00 \<notin> set (c_str msg)
                \<and> e' = write_error msg e n
                \<and> (\<forall>buf. e = Some buf \<and> 0 < n \<longrightarrow>
                      e' = Some (take (nat n - 1) (c_str msg) @ CHR 0x00
                                   # drop (min (nat n) (length (c_str msg) + 1)) buf))"
    if "returned_failure r"
  proof -
    from bad [OF that] obtain msg where m: "c_str msg \<noteq> []" "e' = write_error msg e n"
      by auto
    have "e' = Some (take (nat n - 1) (c_str msg) @ CHR 0x00
                       # drop (min (nat n) (length (c_str msg) + 1)) buf)"
      if "e = Some buf \<and> 0 < n" for buf
      using that m(2) write_error_stored [of n msg buf] by simp
    with m c_str_no_nul [of msg] show ?thesis
      by blast
  qed
  have c: "e' = e" if "e = None \<or> n \<le> 0"
  proof (cases "returned_failure r")
    case True
    from bad [OF this] write_error_declined [OF that] show ?thesis
      by auto
  next
    case False
    then show ?thesis by (rule good)
  qed
  have d: "fst (exec K c e2 n2 s) = r \<and> snd (snd (exec K c e2 n2 s)) = s'" for e2 n2
    using exec_indep [of K c e2 n2 s e n] ex by simp
  from a good c d show ?thesis
    unfolding ex by simp
qed

text \<open>A call ends without returning only when a collaborator throws something that is not
  a \<open>std::exception\<close>, or when the mesher's triangles lead out of the table of a face; the
  functions that call no such collaborator, and the load, which catches everything, always
  return.\<close>

lemma always_returns:
  assumes "exec K c e n s = (r, e', s')"
    "(\<exists>p. c = Init p) \<or> (\<exists>f d l. c = LoadFromMemory f d l)
     \<or> (\<exists>t ids cnt rad tol. c = Fillet t ids cnt rad tol) \<or> (\<exists>h. c = ReleaseHandle h)"
  shows "\<exists>v. r = Returns v"
  using assms by (auto split: prod.splits)

text \<open>
  Claim C8. The claim holds of the code on every path that returns (the lemma
  \<open>error_channel_on_return\<close> above), but not of every call that fails. When the kernel
  throws an exception that is not a \<open>std::exception\<close>, \<open>occt_boolean\<close>,
  \<open>occt_export_step\<close>, \<open>occt_get_bounds\<close> and \<open>occt_generate_mesh_obj\<close>, which catch
  \<open>std::exception\<close> only, are left by the exception: the call has failed, and the
  caller's error buffer, not null and 16 characters long, is as it was before, with no
  diagnostic in it. \<open>occt_load_from_memory\<close>, which has a \<open>catch (...)\<close> as well, does in
  the same situation what the claim says: it returns 0 and writes the diagnostic
  "unknown exception during load", cut to 15 characters and a NUL.
\<close>

theorem uncaught_exception_no_diagnostic:
  "exec throwing_kernel (Boolean 2 2 (Some ''cut'') 0) (Some ''................'') 16 one_shape
     = (Escapes, Some ''................'', one_shape)
   \<and> exec throwing_kernel (ExportStep 2 (Some 0) (Some 0)) (Some ''................'') 16
         one_shape
     = (Escapes, Some ''................'', one_shape)
   \<and> exec throwing_kernel
         (GetBounds 2 \<lparr>minx = Some 0, miny = Some 0, minz = Some 0,
                       maxx = Some 0, maxy = Some 0, maxz = Some 0\<rparr>)
         (Some ''................'') 16 one_shape
     = (Escapes, Some ''................'', one_shape)
   \<and> exec throwing_kernel (GenerateMeshObj 2 0 0 (Some 0) (Some 0)) (Some ''................'')
         16 one_shape
     = (Escapes, Some ''................'', one_shape)
   \<and> failed (Escapes :: rv completion)
   \<and> exec throwing_kernel (LoadFromMemory None (Some [1]) 1) (Some ''................'') 16
         one_shape
     = (Returns (Handle 0), Some (''unknown excepti'' @ [CHR 0x00]),
        one_shape\<lparr>next_handle := 4\<rparr>)"
  by (simp add: throwing_kernel_def test_kernel_def one_shape_def occt_boolean_def
        boolean_branch_def op_string_def c_str_def occt_export_step_def occt_get_bounds_def
        occt_generate_mesh_obj_def occt_load_from_memory_def write_temp_file_def fetch_add_def
        load_caught_def write_error_def snprintf_def failed_def succeeded_def Let_def)

subsection \<open>Mesh export\<close>

















end
